theory Spec2Isabelle
  imports Complex_Main "HOL-Library.AList"
begin

section \<open>JavaScript strings and numbers\<close>

text \<open>
  Strings are lists of 8-bit characters: the model covers documents written in
  ASCII / Latin-1.  Numbers are exact rationals; the values that reach the code below
  are short decimal literals captured from CSS text, so rounding of IEEE doubles is
  not modelled, and \<open>NaN\<close> is the value \<open>None\<close> of \<open>Number\<close>.
\<close>

definition code :: "char \<Rightarrow> nat" where
  "code c = of_char c"

definition is_digit :: "char \<Rightarrow> bool" where
  "is_digit c = (48 \<le> code c \<and> code c \<le> 57)"

definition is_upper :: "char \<Rightarrow> bool" where
  "is_upper c = (65 \<le> code c \<and> code c \<le> 90)"

definition is_lower :: "char \<Rightarrow> bool" where
  "is_lower c = (97 \<le> code c \<and> code c \<le> 122)"

text \<open>The class \<open>\w\<close>: letters, digits and the underscore.\<close>

definition is_word :: "char \<Rightarrow> bool" where
  "is_word c = (is_digit c \<or> is_upper c \<or> is_lower c \<or> code c = 95)"

text \<open>The class \<open>\s\<close>, which is also what \<open>trim\<close> strips: tab, line feed, vertical tab,
  form feed, carriage return, space and the no-break space.\<close>

definition is_space :: "char \<Rightarrow> bool" where
  "is_space c = (code c \<in> {9, 10, 11, 12, 13, 32, 160})"

definition to_lower :: "char \<Rightarrow> char" where
  "to_lower c = (if is_upper c then char_of (code c + 32) else c)"

definition to_upper :: "char \<Rightarrow> char" where
  "to_upper c = (if is_lower c then char_of (code c - 32) else c)"

definition trim :: "string \<Rightarrow> string" where
  "trim s = rev (dropWhile is_space (rev (dropWhile is_space s)))"

text \<open>\<open>s.split(sep)\<close> for a one-character separator, and the split of a class attribute
  at white space.\<close>

fun splitBy :: "(char \<Rightarrow> bool) \<Rightarrow> string \<Rightarrow> string list" where
  "splitBy p [] = [[]]"
| "splitBy p (x # xs) =
     (if p x then [] # splitBy p xs
      else (case splitBy p xs of [] \<Rightarrow> [[x]] | h # t \<Rightarrow> (x # h) # t))"

definition split :: "char \<Rightarrow> string \<Rightarrow> string list" where
  "split sep s = splitBy (\<lambda>x. x = sep) s"

text \<open>\<open>s.includes(sub)\<close>.\<close>

fun starts_with :: "string \<Rightarrow> string \<Rightarrow> bool" where
  "starts_with [] s = True"
| "starts_with (p # ps) [] = False"
| "starts_with (p # ps) (x # xs) = (p = x \<and> starts_with ps xs)"

fun str_includes :: "string \<Rightarrow> string \<Rightarrow> bool" where
  "str_includes [] sub = (sub = [])"
| "str_includes (x # xs) sub = (starts_with sub (x # xs) \<or> str_includes xs sub)"

text \<open>
  \<open>Number(s)\<close> on the strings the capture groups below can hold: an optional minus
  sign, digits, and an optional fraction (\<open>-?\d+(\.\d+)?\<close>).  Every other string that
  reaches \<open>Number\<close> or \<open>isNaN\<close> in the program is a keyword (\<open>normal\<close>, \<open>bold\<close>,
  \<open>lighter\<close>, in any letter case), for which JavaScript gives \<open>NaN\<close>.
\<close>

definition digits_val :: "string \<Rightarrow> nat" where
  "digits_val ds = foldl (\<lambda>a c. 10 * a + (code c - 48)) 0 ds"

definition unsigned_Number :: "string \<Rightarrow> rat option" where
  "unsigned_Number s =
     (let ip = takeWhile is_digit s; rest = dropWhile is_digit s in
      if ip = [] then None
      else (case rest of
              [] \<Rightarrow> Some (of_nat (digits_val ip))
            | d # fp \<Rightarrow>
                if d = CHR ''.'' \<and> fp \<noteq> [] \<and> list_all is_digit fp
                then Some (of_nat (digits_val ip) + of_nat (digits_val fp) / 10 ^ length fp)
                else None))"

definition Number :: "string \<Rightarrow> rat option" where
  "Number s =
     (case s of
        [] \<Rightarrow> None
      | c # cs \<Rightarrow> if c = CHR ''-'' then map_option uminus (unsigned_Number cs)
                 else unsigned_Number s)"

definition isNaN :: "string \<Rightarrow> bool" where
  "isNaN s = (Number s = None)"

section \<open>Regular expressions\<close>

text \<open>
  The fragment of JavaScript regular expressions that the program uses: character
  classes, sequence, alternation, greedy and lazy star, and numbered capture groups.
  \<open>rmatch\<close> is the backtracking matcher: it returns every way the expression can match
  a prefix of the input, in the order in which backtracking tries them, so the head of
  the list is the match JavaScript reports.  An iteration of a star that consumes
  nothing is rejected, as in ECMAScript.
\<close>

datatype catom = CLit char | CRange char char | CDigit | CSpace | CWord

datatype rx =
    Eps
  | Dot
  | Atom "catom list"
  | NAtom "catom list"
  | Seq rx rx
  | Alt rx rx
  | Star rx
  | LazyStar rx
  | Cap nat rx

fun atom_has :: "bool \<Rightarrow> catom \<Rightarrow> char \<Rightarrow> bool" where
  "atom_has ci (CLit c) x = (if ci then to_lower x = to_lower c else x = c)"
| "atom_has ci (CRange a b) x =
     ((code a \<le> code x \<and> code x \<le> code b)
      \<or> (ci \<and> code a \<le> code (to_lower x) \<and> code (to_lower x) \<le> code b)
      \<or> (ci \<and> code a \<le> code (to_upper x) \<and> code (to_upper x) \<le> code b))"
| "atom_has ci CDigit x = is_digit x"
| "atom_has ci CSpace x = is_space x"
| "atom_has ci CWord x = is_word x"

type_synonym caps = "(nat \<times> string) list"

function rmatch :: "bool \<Rightarrow> rx \<Rightarrow> caps \<times> string \<Rightarrow> (caps \<times> string) list" where
  "rmatch ci Eps st = [st]"
| "rmatch ci Dot (c, s) =
     (case s of [] \<Rightarrow> [] | x # xs \<Rightarrow> if code x = 10 \<or> code x = 13 then [] else [(c, xs)])"
| "rmatch ci (Atom atoms) (c, s) =
     (case s of [] \<Rightarrow> [] | x # xs \<Rightarrow> if list_ex (\<lambda>a. atom_has ci a x) atoms then [(c, xs)] else [])"
| "rmatch ci (NAtom atoms) (c, s) =
     (case s of [] \<Rightarrow> [] | x # xs \<Rightarrow> if list_ex (\<lambda>a. atom_has ci a x) atoms then [] else [(c, xs)])"
| "rmatch ci (Seq a b) st = concat (map (rmatch ci b) (rmatch ci a st))"
| "rmatch ci (Alt a b) st = rmatch ci a st @ rmatch ci b st"
| "rmatch ci (Star a) (c, s) =
     concat (map (\<lambda>(c', s'). if length s' < length s then rmatch ci (Star a) (c', s') else [])
                 (rmatch ci a (c, s))) @ [(c, s)]"
| "rmatch ci (LazyStar a) (c, s) =
     (c, s) # concat (map (\<lambda>(c', s'). if length s' < length s
                                        then rmatch ci (LazyStar a) (c', s') else [])
                          (rmatch ci a (c, s)))"
| "rmatch ci (Cap n a) (c, s) =
     map (\<lambda>(c', s'). ((n, take (length s - length s') s) # c', s')) (rmatch ci a (c, s))"
  by pat_completeness auto
termination
  by (relation "measures [\<lambda>(ci, r, c, s). size r, \<lambda>(ci, r, c, s). length s]") auto

text \<open>Derived forms: a literal string, \<open>r+\<close>, \<open>r?\<close>, \<open>r{m,n}\<close>, and an alternation of
  several branches.\<close>

fun Lit :: "string \<Rightarrow> rx" where
  "Lit [] = Eps"
| "Lit (c # cs) = Seq (Atom [CLit c]) (Lit cs)"

definition Plus :: "rx \<Rightarrow> rx" where
  "Plus r = Seq r (Star r)"

definition Opt :: "rx \<Rightarrow> rx" where
  "Opt r = Alt r Eps"

fun Alts :: "rx \<Rightarrow> rx list \<Rightarrow> rx" where
  "Alts r [] = r"
| "Alts r (q # qs) = Alt r (Alts q qs)"

fun Times :: "nat \<Rightarrow> rx \<Rightarrow> rx" where
  "Times 0 r = Eps"
| "Times (Suc n) r = Seq r (Times n r)"

fun UpTo :: "nat \<Rightarrow> rx \<Rightarrow> rx" where
  "UpTo 0 r = Eps"
| "UpTo (Suc n) r = Opt (Seq r (UpTo n r))"

definition Rep :: "nat \<Rightarrow> nat \<Rightarrow> rx \<Rightarrow> rx" where
  "Rep m n r = Seq (Times m r) (UpTo (n - m) r)"

text \<open>
  A match: the matched text \<open>match[0]\<close> and the capture groups.  Every group that the
  program reads takes part in every match of its expression.
\<close>

type_synonym rmatch_result = "string \<times> caps"

definition whole :: "rmatch_result \<Rightarrow> string" where
  "whole m = fst m"

definition grp :: "nat \<Rightarrow> rmatch_result \<Rightarrow> string" where
  "grp n m = (case map_of (snd m) n of None \<Rightarrow> [] | Some s \<Rightarrow> s)"

text \<open>
  \<open>s.matchAll(re)\<close> for a global expression: the leftmost match, then the search goes
  on behind it (one character further when the match is empty).
\<close>

function matchAll :: "bool \<Rightarrow> rx \<Rightarrow> string \<Rightarrow> rmatch_result list" where
  "matchAll ci r s =
     (case rmatch ci r ([], s) of
        [] \<Rightarrow> (case s of [] \<Rightarrow> [] | x # xs \<Rightarrow> matchAll ci r xs)
      | (c, rest) # alternatives \<Rightarrow>
          (take (length s - length rest) s, c) #
          (if length rest < length s then matchAll ci r rest
           else (case s of [] \<Rightarrow> [] | x # xs \<Rightarrow> matchAll ci r xs)))"
  by pat_completeness auto
termination
  by (relation "measure (\<lambda>(ci, r, s). length s)") auto

declare matchAll.simps [simp del]

text \<open>\<open>re.exec(s)\<close> on a fresh expression: the first match, or \<open>null\<close>.\<close>

definition exec :: "bool \<Rightarrow> rx \<Rightarrow> string \<Rightarrow> rmatch_result option" where
  "exec ci r s = (case matchAll ci r s of [] \<Rightarrow> None | m # ms \<Rightarrow> Some m)"


fun Seqs :: "rx list \<Rightarrow> rx" where
  "Seqs [] = Eps"
| "Seqs (r # rs) = Seq r (Seqs rs)"

text \<open>\<open>\s*\<close>, \<open>\s+\<close>, \<open>\d+\<close>, \<open>\d+(?:\.\d+)?\<close>, \<open>\w+\<close> and \<open>[^;]+\<close>.\<close>

definition spaces0 :: rx where
  "spaces0 = Star (Atom [CSpace])"

definition spaces1 :: rx where
  "spaces1 = Plus (Atom [CSpace])"

definition digits :: rx where
  "digits = Plus (Atom [CDigit])"

definition decimal :: rx where
  "decimal = Seq digits (Opt (Seq (Lit ''.'') digits))"

definition word1 :: rx where
  "word1 = Plus (Atom [CWord])"

definition to_semicolon :: rx where
  "to_semicolon = Plus (NAtom [CLit CHR '';''])"

definition to_paren :: rx where
  "to_paren = Plus (NAtom [CLit CHR '')''])"

section \<open>The pattern rules of \<open>extractPatternsFromCSS\<close>\<close>

text \<open>Each definition is one regular expression literal of the function, in its order.
  All of them carry the flags \<open>gi\<close>, except \<open>colorRegex\<close>, which is only global.\<close>

definition hexdigit :: rx where
  "hexdigit = Atom [CRange CHR ''0'' CHR ''9'', CRange CHR ''a'' CHR ''f'', CRange CHR ''A'' CHR ''F'']"

definition colorRegex :: rx where
  "colorRegex = Cap 1 (Alts
     (Seq (Lit ''#'') (Rep 3 8 hexdigit))
     [Seqs [Lit ''rgb('', to_paren, Lit '')''],
      Seqs [Lit ''rgba('', to_paren, Lit '')''],
      Seqs [Lit ''hsl('', to_paren, Lit '')''],
      Seqs [Lit ''hsla('', to_paren, Lit '')''],
      Lit ''transparent'',
      Lit ''currentColor''])"

definition fontRegex :: rx where
  "fontRegex = Seqs [Lit ''font-family:'', spaces0, Cap 1 to_semicolon]"

definition fontSizeRegex :: rx where
  "fontSizeRegex = Seqs [Lit ''font-size:'', spaces0, Cap 1 decimal,
     Opt (Alts (Lit ''px'') [Lit ''rem'', Lit ''em''])]"

definition fontWeightRegex :: rx where
  "fontWeightRegex = Seqs [Lit ''font-weight:'', spaces0,
     Cap 1 (Alts digits [Lit ''normal'', Lit ''bold'', Lit ''bolder'', Lit ''lighter''])]"

definition lineHeightRegex :: rx where
  "lineHeightRegex = Seqs [Lit ''line-height:'', spaces0, Cap 1 decimal,
     Opt (Alts (Lit ''px'') [Lit ''rem'', Lit ''em'', Lit ''%''])]"

definition letterSpacingRegex :: rx where
  "letterSpacingRegex = Seqs [Lit ''letter-spacing:'', spaces0,
     Cap 1 (Seq (Opt (Lit ''-'')) decimal), Opt (Alts (Lit ''px'') [Lit ''em''])]"

definition side_suffix :: rx where
  "side_suffix = Opt (Alts (Lit ''-top'') [Lit ''-right'', Lit ''-bottom'', Lit ''-left''])"

definition spacingRegex :: rx where
  "spacingRegex = Seqs [Alts (Lit ''padding'') [Lit ''margin''], side_suffix, Lit '':'', spaces0,
     Cap 1 decimal, Opt (Alts (Lit ''px'') [Lit ''rem'', Lit ''em'', Lit ''%''])]"

definition borderRadiusRegex :: rx where
  "borderRadiusRegex = Seqs [Lit ''border-radius:'', spaces0, Cap 1 decimal,
     Opt (Alts (Lit ''px'') [Lit ''rem'', Lit ''em'', Lit ''%''])]"

definition shadowRegex :: rx where
  "shadowRegex = Seqs [Lit ''box-shadow:'', spaces0, Cap 1 to_semicolon]"

definition borderRegex :: rx where
  "borderRegex = Seqs [Lit ''border'', side_suffix, Opt (Lit ''-width''), Lit '':'', spaces0,
     Cap 1 (Seq decimal (Opt (Alts (Lit ''px'') [Lit ''rem'', Lit ''em'']))),
     spaces1, Cap 2 word1, spaces1, Cap 3 to_semicolon]"

definition transitionRegex :: rx where
  "transitionRegex = Seqs [Lit ''transition:'', spaces0, Cap 1 to_semicolon]"

definition transformRegex :: rx where
  "transformRegex = Seqs [Lit ''transform:'', spaces0, Cap 1 to_semicolon]"

definition opacityRegex :: rx where
  "opacityRegex = Seqs [Lit ''opacity:'', spaces0, Cap 1 decimal]"

definition gradientRegex :: rx where
  "gradientRegex = Seqs [Alts (Lit ''background'') [Lit ''background-image''], Lit '':'', spaces0,
     Cap 1 (Alts (Lit ''linear-gradient'') [Lit ''radial-gradient'', Lit ''conic-gradient'']),
     Lit ''('', to_paren, Lit '')'']"

definition zIndexRegex :: rx where
  "zIndexRegex = Seqs [Lit ''z-index:'', spaces0, Cap 1 (Seq (Opt (Lit ''-'')) digits)]"

definition gapRegex :: rx where
  "gapRegex = Seqs [Lit ''gap:'', spaces0, Cap 1 decimal,
     Opt (Alts (Lit ''px'') [Lit ''rem'', Lit ''em''])]"

definition widthRegex :: rx where
  "widthRegex = Seqs [Lit ''width:'', spaces0, Cap 1 decimal,
     Opt (Alts (Lit ''px'') [Lit ''rem'', Lit ''em'', Lit ''%''])]"

definition heightRegex :: rx where
  "heightRegex = Seqs [Lit ''height:'', spaces0, Cap 1 decimal,
     Opt (Alts (Lit ''px'') [Lit ''rem'', Lit ''em'', Lit ''%''])]"

definition displayRegex :: rx where
  "displayRegex = Seqs [Lit ''display:'', spaces0, Cap 1 word1]"

definition flexRegex :: rx where
  "flexRegex = Seqs [Alts (Lit ''flex-direction'') [Lit ''justify-content'', Lit ''align-items'',
       Lit ''align-self'', Lit ''flex-wrap'', Lit ''flex-grow'', Lit ''flex-shrink''],
     Lit '':'', spaces0, Cap 1 to_semicolon]"

definition gridRegex :: rx where
  "gridRegex = Seqs [Alts (Lit ''grid-template-columns'') [Lit ''grid-template-rows'',
       Lit ''grid-column'', Lit ''grid-row'', Lit ''grid-area''],
     Lit '':'', spaces0, Cap 1 to_semicolon]"

definition positionRegex :: rx where
  "positionRegex = Seqs [Lit ''position:'', spaces0, Cap 1 word1]"

definition textTransformRegex :: rx where
  "textTransformRegex = Seqs [Lit ''text-transform:'', spaces0, Cap 1 word1]"

definition textDecorationRegex :: rx where
  "textDecorationRegex = Seqs [Lit ''text-decoration:'', spaces0, Cap 1 to_semicolon]"

definition mediaQueryRegex :: rx where
  "mediaQueryRegex = Seqs [Lit ''@media'', spaces1,
     Alts (Seqs [Lit ''('', to_paren, Lit '')'']) [Lit ''screen'', Lit ''print''],
     LazyStar Dot, Alts (Lit ''min-width'') [Lit ''max-width''], Lit '':'', spaces0,
     Cap 1 digits, Alts (Lit ''px'') [Lit ''em'', Lit ''rem'']]"

definition animationRegex :: rx where
  "animationRegex = Seqs [Alts (Lit ''animation'') [Lit ''@keyframes''], spaces1, Cap 1 word1]"

definition cssVarRegex :: rx where
  "cssVarRegex = Seqs [Lit ''--'', Plus (Atom [CWord, CLit CHR ''-'']), Lit '':'', spaces0,
     Cap 1 to_semicolon]"

section \<open>The patterns object\<close>

text \<open>
  The working object of the extractor, the snapshot it returns and the profile
  \<open>paywallPatterns\<close> have the same twenty-six category keys.  \<open>'n\<close> is the type of an
  entry of a numeric category (the captured string in the working object, a number in
  the snapshot and the profile) and \<open>'l\<close> the type of \<open>layouts\<close>.  A JavaScript \<open>Set\<close> is
  the list of its members in insertion order; an object with string keys is an
  association list in insertion order.
\<close>

record layout =
  buttons :: nat
  cards :: nat
  containers :: nat
  inputs :: nat
  modals :: nat

type_synonym 'v obj = "(string \<times> 'v) list"

record ('n, 'l) patterns =
  colors :: "string list"
  fonts :: "string list"
  fontSizes :: "'n list"
  fontWeights :: "'n list"
  lineHeights :: "'n list"
  letterSpacing :: "'n list"
  spacing :: "'n list"
  borderRadius :: "'n list"
  shadows :: "string list"
  borders :: "string list"
  transitions :: "string list"
  transforms :: "string list"
  opacities :: "'n list"
  gradients :: "string list"
  zIndex :: "'n list"
  gaps :: "'n list"
  widths :: "'n list"
  heights :: "'n list"
  displayTypes :: "string list"
  flexProperties :: "string list"
  gridProperties :: "string list"
  positions :: "string list"
  textTransforms :: "string list"
  textDecorations :: "string list"
  breakpoints :: "'n list"
  animations :: "string list"
  layouts :: "'l"
  commonStyles :: "string obj obj"
  componentStyles :: "string list obj obj"

type_synonym working = "(string, unit) patterns"
type_synonym snapshot = "(rat, layout) patterns"

record profile = "(rat, layout list) patterns" +
  count :: nat

text \<open>\<open>set.add(x)\<close>, \<open>obj[k]\<close> with a default for a missing key, and \<open>Object.assign\<close>.\<close>

definition Set_add :: "'a \<Rightarrow> 'a list \<Rightarrow> 'a list" where
  "Set_add x s = (if x \<in> set s then s else s @ [x])"

definition get_or :: "'v \<Rightarrow> 'v obj \<Rightarrow> string \<Rightarrow> 'v" where
  "get_or d ob k = (case map_of ob k of None \<Rightarrow> d | Some v \<Rightarrow> v)"

definition Object_assign :: "'v obj \<Rightarrow> 'v obj \<Rightarrow> 'v obj" where
  "Object_assign target source = fold (\<lambda>(k, v). AList.update k v) source target"

definition empty_patterns :: "'l \<Rightarrow> ('n, 'l) patterns" where
  "empty_patterns l = \<lparr>
     colors = [], fonts = [], fontSizes = [], fontWeights = [], lineHeights = [],
     letterSpacing = [], spacing = [], borderRadius = [], shadows = [], borders = [],
     transitions = [], transforms = [], opacities = [], gradients = [], zIndex = [],
     gaps = [], widths = [], heights = [], displayTypes = [], flexProperties = [],
     gridProperties = [], positions = [], textTransforms = [], textDecorations = [],
     breakpoints = [], animations = [], layouts = l, commonStyles = [],
     componentStyles = [] \<rparr>"

section \<open>\<open>extractPatternsFromCSS\<close>\<close>

text \<open>One fold per rule: the matches of the rule's expression in \<open>cssText\<close>, in order,
  each adding to the rule's own set.\<close>

definition add_captures :: "rx \<Rightarrow> string \<Rightarrow> string list \<Rightarrow> string list" where
  "add_captures r cssText s = fold (\<lambda>m. Set_add (grp 1 m)) (matchAll True r cssText) s"

definition add_trimmed_captures :: "rx \<Rightarrow> string \<Rightarrow> string list \<Rightarrow> string list" where
  "add_trimmed_captures r cssText s =
     fold (\<lambda>m. Set_add (trim (grp 1 m))) (matchAll True r cssText) s"

definition add_trimmed_matches :: "bool \<Rightarrow> rx \<Rightarrow> string \<Rightarrow> string list \<Rightarrow> string list" where
  "add_trimmed_matches ci r cssText s =
     fold (\<lambda>m. Set_add (trim (whole m))) (matchAll ci r cssText) s"

definition strip_quotes :: "string \<Rightarrow> string" where
  "strip_quotes f = filter (\<lambda>c. code c \<noteq> 39 \<and> code c \<noteq> 34) f"

definition add_fonts :: "string \<Rightarrow> string list \<Rightarrow> string list" where
  "add_fonts cssText s =
     fold (\<lambda>m s'. fold Set_add (map (\<lambda>f. strip_quotes (trim f)) (split CHR '','' (grp 1 m))) s')
          (matchAll True fontRegex cssText) s"

definition add_fontWeights :: "string \<Rightarrow> string list \<Rightarrow> string list" where
  "add_fontWeights cssText s =
     fold (\<lambda>m s'. let weight = grp 1 m in
                   if weight = ''normal'' then Set_add ''400'' s'
                   else if weight = ''bold'' then Set_add ''700'' s'
                   else if \<not> isNaN weight then Set_add weight s'
                   else s')
          (matchAll True fontWeightRegex cssText) s"

definition add_borders :: "string \<Rightarrow> string list \<Rightarrow> string list" where
  "add_borders cssText s =
     fold (\<lambda>m. Set_add (grp 1 m @ ''px '' @ grp 2 m @ '' '' @ trim (grp 3 m)))
          (matchAll True borderRegex cssText) s"

definition add_widths :: "string \<Rightarrow> string list \<Rightarrow> string list" where
  "add_widths cssText s =
     fold (\<lambda>m s'. if \<not> str_includes (grp 1 m) ''%'' \<and> \<not> str_includes (grp 1 m) ''vw''
                   then Set_add (grp 1 m) s' else s')
          (matchAll True widthRegex cssText) s"

definition add_heights :: "string \<Rightarrow> string list \<Rightarrow> string list" where
  "add_heights cssText s =
     fold (\<lambda>m s'. if \<not> str_includes (grp 1 m) ''%'' \<and> \<not> str_includes (grp 1 m) ''vh''
                   then Set_add (grp 1 m) s' else s')
          (matchAll True heightRegex cssText) s"

definition add_cssVariables :: "string \<Rightarrow> string obj obj \<Rightarrow> string obj obj" where
  "add_cssVariables cssText cs =
     fold (\<lambda>m cs'. let varName = trim (case split CHR '':'' (whole m) of [] \<Rightarrow> [] | h # t \<Rightarrow> h);
                        varValue = trim (grp 1 m)
                    in AList.update ''cssVariables''
                         (AList.update varName varValue (get_or [] cs' ''cssVariables'')) cs')
          (matchAll True cssVarRegex cssText) cs"

definition extractPatternsFromCSS :: "string \<Rightarrow> working \<Rightarrow> working" where
  "extractPatternsFromCSS cssText patterns = patterns\<lparr>
     colors := add_trimmed_matches False colorRegex cssText (colors patterns),
     fonts := add_fonts cssText (fonts patterns),
     fontSizes := add_captures fontSizeRegex cssText (fontSizes patterns),
     fontWeights := add_fontWeights cssText (fontWeights patterns),
     lineHeights := add_captures lineHeightRegex cssText (lineHeights patterns),
     letterSpacing := add_captures letterSpacingRegex cssText (letterSpacing patterns),
     spacing := add_captures spacingRegex cssText (spacing patterns),
     borderRadius := add_captures borderRadiusRegex cssText (borderRadius patterns),
     shadows := add_trimmed_captures shadowRegex cssText (shadows patterns),
     borders := add_borders cssText (borders patterns),
     transitions := add_trimmed_captures transitionRegex cssText (transitions patterns),
     transforms := add_trimmed_captures transformRegex cssText (transforms patterns),
     opacities := add_captures opacityRegex cssText (opacities patterns),
     gradients := add_trimmed_matches True gradientRegex cssText (gradients patterns),
     zIndex := add_captures zIndexRegex cssText (zIndex patterns),
     gaps := add_captures gapRegex cssText (gaps patterns),
     widths := add_widths cssText (widths patterns),
     heights := add_heights cssText (heights patterns),
     displayTypes := add_captures displayRegex cssText (displayTypes patterns),
     flexProperties := add_trimmed_matches True flexRegex cssText (flexProperties patterns),
     gridProperties := add_trimmed_matches True gridRegex cssText (gridProperties patterns),
     positions := add_captures positionRegex cssText (positions patterns),
     textTransforms := add_captures textTransformRegex cssText (textTransforms patterns),
     textDecorations := add_trimmed_captures textDecorationRegex cssText (textDecorations patterns),
     breakpoints := add_captures mediaQueryRegex cssText (breakpoints patterns),
     animations := add_captures animationRegex cssText (animations patterns),
     commonStyles := add_cssVariables cssText (commonStyles patterns) \<rparr>"

section \<open>The parsed document\<close>

text \<open>
  \<open>cheerio.load\<close> is a library outside the repository.  Its result is modelled as the
  list of the document's elements in document order, each with its tag name (lower
  case, as the parser gives it), its attributes, and the text \<open>$(elem).html()\<close>
  returns for it (for a \<open>style\<close> element, the style sheet text).  A selection
  \<open>$(selector)\<close> is the sublist of the elements that match the selector.
\<close>

record element =
  tag :: string
  attrs :: "string obj"
  html :: string

definition has_attr :: "string \<Rightarrow> element \<Rightarrow> bool" where
  "has_attr a e = (map_of (attrs e) a \<noteq> None)"

definition attr :: "string \<Rightarrow> element \<Rightarrow> string" where
  "attr a e = get_or [] (attrs e) a"

text \<open>The selectors \<open>.c\<close> and \<open>[class*='sub']\<close>.\<close>

definition has_class :: "string \<Rightarrow> element \<Rightarrow> bool" where
  "has_class c e = (has_attr ''class'' e \<and> c \<in> set (splitBy is_space (attr ''class'' e)))"

definition class_contains :: "string \<Rightarrow> element \<Rightarrow> bool" where
  "class_contains sub e = (has_attr ''class'' e \<and> str_includes (attr ''class'' e) sub)"

definition is_button :: "element \<Rightarrow> bool" where
  "is_button e = (tag e = ''button'' \<or> has_class ''button'' e \<or> class_contains ''btn'' e)"

definition is_card :: "element \<Rightarrow> bool" where
  "is_card e = (has_class ''card'' e \<or> class_contains ''card'' e)"

definition is_container :: "element \<Rightarrow> bool" where
  "is_container e = (has_class ''container'' e \<or> class_contains ''container'' e)"

definition is_input :: "element \<Rightarrow> bool" where
  "is_input e = (tag e = ''input'' \<or> has_class ''input'' e \<or> class_contains ''input'' e)"

definition is_modal :: "element \<Rightarrow> bool" where
  "is_modal e = (has_class ''modal'' e \<or> class_contains ''modal'' e \<or> class_contains ''dialog'' e)"

section \<open>\<open>extractSelectorStyles\<close> and \<open>extractComponentStyles\<close>\<close>

text \<open>
  The selector string is escaped before it goes into the expression, so the
  expression matches the selector's own text, followed by \<open>[^{]*\{([^}]+)\}\<close>.
  \<open>$("style").html()\<close> is the text of the first element of the selection.
\<close>

definition selectorRegex :: "string \<Rightarrow> rx" where
  "selectorRegex selector = Seqs [Cap 1 (Lit selector), Star (NAtom [CLit CHR ''{'']), Lit ''{'',
     Cap 2 (Plus (NAtom [CLit CHR ''}''])), Lit ''}'']"

definition propRegex :: "string \<Rightarrow> rx" where
  "propRegex prop = Seqs [Lit prop, Lit '':'', spaces0, Cap 1 to_semicolon]"

definition extractSelectorStyles :: "element list \<Rightarrow> string \<Rightarrow> string list \<Rightarrow> string list obj" where
  "extractSelectorStyles doc selector properties =
     (let cssText = (case filter (\<lambda>e. tag e = ''style'') doc of [] \<Rightarrow> [] | e # es \<Rightarrow> html e);
          matches = matchAll True (selectorRegex selector) cssText;
          styles = fold (\<lambda>m styles'.
                      let styleBlock = grp 2 m in
                      fold (\<lambda>prop st.
                              case exec True (propRegex prop) styleBlock of
                                None \<Rightarrow> st
                              | Some propMatch \<Rightarrow>
                                  AList.update prop
                                    (Set_add (trim (grp 1 propMatch)) (get_or [] st prop)) st)
                           properties styles')
                    matches []
      in map (\<lambda>(key, vs). (key, take 5 vs)) styles)"

definition button_selector :: string where
  "button_selector = ''button, .button, [class*='btn']''"

definition card_selector :: string where
  "card_selector = ''.card, [class*='card']''"

definition input_selector :: string where
  "input_selector = ''input, .input, [class*='input']''"

definition extractComponentStyles :: "element list \<Rightarrow> working \<Rightarrow> working" where
  "extractComponentStyles doc patterns =
     (let buttonStyles = extractSelectorStyles doc button_selector
            [''background'', ''color'', ''padding'', ''border-radius'', ''font-weight'',
             ''font-size'', ''border'', ''box-shadow'', ''transition''];
          p1 = (if buttonStyles \<noteq> []
                then patterns\<lparr>componentStyles :=
                       AList.update ''buttons'' buttonStyles (componentStyles patterns)\<rparr>
                else patterns);
          cardStyles = extractSelectorStyles doc card_selector
            [''background'', ''border-radius'', ''box-shadow'', ''padding'', ''border''];
          p2 = (if cardStyles \<noteq> []
                then p1\<lparr>componentStyles := AList.update ''cards'' cardStyles (componentStyles p1)\<rparr>
                else p1);
          inputStyles = extractSelectorStyles doc input_selector
            [''border'', ''border-radius'', ''padding'', ''font-size'', ''background''];
          p3 = (if inputStyles \<noteq> []
                then p2\<lparr>componentStyles := AList.update ''inputs'' inputStyles (componentStyles p2)\<rparr>
                else p2)
      in p3)"

section \<open>\<open>extractPaywallPatterns\<close>\<close>

text \<open>\<open>.map(Number)\<close> followed by a filter that starts with \<open>!isNaN(n)\<close>.\<close>

definition numbers :: "string list \<Rightarrow> rat list" where
  "numbers xs = List.map_filter Number xs"

text \<open>The working object after the style sheets, the inline styles and the component
  styles have been scanned.\<close>

definition collect :: "element list \<Rightarrow> working" where
  "collect doc =
     (let p0 = empty_patterns ();
          p1 = fold (\<lambda>elem. extractPatternsFromCSS (html elem))
                    (filter (\<lambda>e. tag e = ''style'') doc) p0;
          p2 = fold (\<lambda>elem. extractPatternsFromCSS (attr ''style'' elem))
                    (filter (has_attr ''style'') doc) p1
      in extractComponentStyles doc p2)"

definition extractPaywallPatterns :: "element list \<Rightarrow> snapshot" where
  "extractPaywallPatterns doc =
     (let patterns = collect doc;
          buttonCount = length (filter is_button doc);
          cardCount = length (filter is_card doc);
          containerCount = length (filter is_container doc);
          inputCount = length (filter is_input doc);
          modalCount = length (filter is_modal doc)
      in \<lparr> colors = take 30 (colors patterns),
           fonts = take 15 (fonts patterns),
           fontSizes = take 20 (sort (filter (\<lambda>n. n > 0) (numbers (fontSizes patterns)))),
           fontWeights = take 10 (sort (numbers (fontWeights patterns))),
           lineHeights = take 15 (sort (filter (\<lambda>n. n > 0) (numbers (lineHeights patterns)))),
           letterSpacing = take 10 (sort (numbers (letterSpacing patterns))),
           spacing = take 25 (sort (numbers (spacing patterns))),
           borderRadius = take 15 (sort (numbers (borderRadius patterns))),
           shadows = take 15 (shadows patterns),
           borders = take 15 (borders patterns),
           transitions = take 15 (transitions patterns),
           transforms = take 10 (transforms patterns),
           opacities = take 10 (sort (filter (\<lambda>n. n \<ge> 0 \<and> n \<le> 1) (numbers (opacities patterns)))),
           gradients = take 10 (gradients patterns),
           zIndex = take 10 (sort (numbers (zIndex patterns))),
           gaps = take 15 (sort (numbers (gaps patterns))),
           widths = take 15 (sort (numbers (widths patterns))),
           heights = take 15 (sort (numbers (heights patterns))),
           displayTypes = take 10 (displayTypes patterns),
           flexProperties = take 15 (flexProperties patterns),
           gridProperties = take 10 (gridProperties patterns),
           positions = take 5 (positions patterns),
           textTransforms = take 5 (textTransforms patterns),
           textDecorations = take 5 (textDecorations patterns),
           breakpoints = take 10 (sort (numbers (breakpoints patterns))),
           animations = take 10 (animations patterns),
           layouts = \<lparr> buttons = buttonCount, cards = cardCount, containers = containerCount,
                       inputs = inputCount, modals = modalCount \<rparr>,
           commonStyles = commonStyles patterns,
           componentStyles = componentStyles patterns \<rparr>)"

section \<open>The profile and \<open>mergePaywallPatterns\<close>\<close>

text \<open>The value \<open>paywallPatterns\<close> starts with, which is also the value the handler of
  \<open>DELETE /api/paywall-patterns\<close> assigns to it.\<close>

definition empty_profile :: profile where
  "empty_profile = \<lparr>
     colors = [], fonts = [], fontSizes = [], fontWeights = [], lineHeights = [],
     letterSpacing = [], spacing = [], borderRadius = [], shadows = [], borders = [],
     transitions = [], transforms = [], opacities = [], gradients = [], zIndex = [],
     gaps = [], widths = [], heights = [], displayTypes = [], flexProperties = [],
     gridProperties = [], positions = [], textTransforms = [], textDecorations = [],
     breakpoints = [], animations = [], layouts = [], commonStyles = [],
     componentStyles = [], count = 0 \<rparr>"

definition reset :: "profile \<Rightarrow> profile" where
  "reset paywallPatterns = empty_profile"

text \<open>
  \<open>mergeArray\<close> is one closure in the source; it is called with arrays of numbers and a
  tolerance (\<open>mergeArray_num\<close>) and with arrays of strings and no tolerance
  (\<open>mergeArray_str\<close>).  Both arguments are always arrays here, so the two
  \<open>Array.isArray\<close> guards do nothing.

  In \<open>mergeArray_num\<close> the test \<open>!existing\<close> is on the element \<open>find\<close> returned: it
  holds when nothing was found, and also when the element found is the number 0.
  The sort happens when \<open>target[0]\<close> is a number, that is, when the array is not empty.
\<close>

definition push_new :: "'a \<Rightarrow> 'a list \<Rightarrow> 'a list" where
  "push_new item target = (if item \<in> set target then target else target @ [item])"

definition merge_item :: "rat option \<Rightarrow> rat \<Rightarrow> rat list \<Rightarrow> rat list" where
  "merge_item tolerance item target =
     (case tolerance of
        None \<Rightarrow> push_new item target
      | Some tol \<Rightarrow>
          if tol \<noteq> 0
          then (case find (\<lambda>t. \<bar>t - item\<bar> < tol) target of
                  None \<Rightarrow> target @ [item]
                | Some existing \<Rightarrow> if existing = 0 then target @ [item] else target)
          else push_new item target)"

definition mergeArray_num :: "rat list \<Rightarrow> rat list \<Rightarrow> nat \<Rightarrow> rat option \<Rightarrow> rat list" where
  "mergeArray_num target source limit tolerance =
     (let target' = fold (merge_item tolerance) source target
      in (case target' of
            [] \<Rightarrow> take limit target'
          | t0 # ts \<Rightarrow> take limit (sort target')))"

definition mergeArray_str :: "string list \<Rightarrow> string list \<Rightarrow> nat \<Rightarrow> string list" where
  "mergeArray_str target source limit =
     take limit (fold push_new source target)"

definition merge_layouts :: "layout list \<Rightarrow> layout \<Rightarrow> layout list" where
  "merge_layouts history l =
     (let h = history @ [l] in if length h > 50 then drop (length h - 50) h else h)"

definition merge_componentStyles ::
  "string list obj obj \<Rightarrow> string list obj obj \<Rightarrow> string list obj obj" where
  "merge_componentStyles stored new =
     fold (\<lambda>component cs.
             AList.update component
               (Object_assign (get_or [] cs component) (get_or [] new component)) cs)
          (map fst new) stored"

definition mergePaywallPatterns :: "snapshot \<Rightarrow> profile \<Rightarrow> profile" where
  "mergePaywallPatterns newPatterns paywallPatterns = paywallPatterns\<lparr>
     count := count paywallPatterns + 1,
     colors := mergeArray_str (colors paywallPatterns) (colors newPatterns) 40,
     fonts := mergeArray_str (fonts paywallPatterns) (fonts newPatterns) 20,
     fontSizes := mergeArray_num (fontSizes paywallPatterns) (fontSizes newPatterns) 25 (Some 1),
     fontWeights := mergeArray_num (fontWeights paywallPatterns) (fontWeights newPatterns) 12 (Some 50),
     lineHeights := mergeArray_num (lineHeights paywallPatterns) (lineHeights newPatterns) 20 (Some (1 / 2)),
     letterSpacing := mergeArray_num (letterSpacing paywallPatterns) (letterSpacing newPatterns) 12 (Some (1 / 10)),
     spacing := mergeArray_num (spacing paywallPatterns) (spacing newPatterns) 30 (Some 2),
     borderRadius := mergeArray_num (borderRadius paywallPatterns) (borderRadius newPatterns) 20 (Some 2),
     shadows := mergeArray_str (shadows paywallPatterns) (shadows newPatterns) 20,
     borders := mergeArray_str (borders paywallPatterns) (borders newPatterns) 20,
     transitions := mergeArray_str (transitions paywallPatterns) (transitions newPatterns) 20,
     transforms := mergeArray_str (transforms paywallPatterns) (transforms newPatterns) 15,
     opacities := mergeArray_num (opacities paywallPatterns) (opacities newPatterns) 12 (Some (1 / 20)),
     gradients := mergeArray_str (gradients paywallPatterns) (gradients newPatterns) 15,
     zIndex := mergeArray_num (zIndex paywallPatterns) (zIndex newPatterns) 15 (Some 10),
     gaps := mergeArray_num (gaps paywallPatterns) (gaps newPatterns) 20 (Some 2),
     widths := mergeArray_num (widths paywallPatterns) (widths newPatterns) 20 (Some 10),
     heights := mergeArray_num (heights paywallPatterns) (heights newPatterns) 20 (Some 10),
     displayTypes := mergeArray_str (displayTypes paywallPatterns) (displayTypes newPatterns) 12,
     flexProperties := mergeArray_str (flexProperties paywallPatterns) (flexProperties newPatterns) 20,
     gridProperties := mergeArray_str (gridProperties paywallPatterns) (gridProperties newPatterns) 15,
     positions := mergeArray_str (positions paywallPatterns) (positions newPatterns) 8,
     textTransforms := mergeArray_str (textTransforms paywallPatterns) (textTransforms newPatterns) 6,
     textDecorations := mergeArray_str (textDecorations paywallPatterns) (textDecorations newPatterns) 8,
     breakpoints := mergeArray_num (breakpoints paywallPatterns) (breakpoints newPatterns) 15 (Some 20),
     animations := mergeArray_str (animations paywallPatterns) (animations newPatterns) 15,
     layouts := merge_layouts (layouts paywallPatterns) (layouts newPatterns),
     commonStyles := Object_assign (commonStyles paywallPatterns) (commonStyles newPatterns),
     componentStyles :=
       merge_componentStyles (componentStyles paywallPatterns) (componentStyles newPatterns) \<rparr>"

section \<open>Categories\<close>

text \<open>
  The twenty-six keys under which the extractor and the merge treat a list, and, read
  off the source per key: the limit \<open>mergePaywallPatterns\<close> passes to \<open>mergeArray\<close>
  (\<open>capacity\<close>), the tolerance it passes, if any (\<open>tolerance\<close>), and the bound of the
  \<open>slice\<close> in the object \<open>extractPaywallPatterns\<close> returns (\<open>snapshot_cap\<close>).
\<close>

datatype category =
    Colors | Fonts | FontSizes | FontWeights | LineHeights | LetterSpacing
  | Spacing | BorderRadius | Shadows | Borders | Transitions | Transforms
  | Opacities | Gradients | ZIndex | Gaps | Widths | Heights
  | DisplayTypes | FlexProperties | GridProperties | Positions | TextTransforms | TextDecorations
  | Breakpoints | Animations

fun capacity :: "category \<Rightarrow> nat" where
  "capacity Colors = 40"
| "capacity Fonts = 20"
| "capacity FontSizes = 25"
| "capacity FontWeights = 12"
| "capacity LineHeights = 20"
| "capacity LetterSpacing = 12"
| "capacity Spacing = 30"
| "capacity BorderRadius = 20"
| "capacity Shadows = 20"
| "capacity Borders = 20"
| "capacity Transitions = 20"
| "capacity Transforms = 15"
| "capacity Opacities = 12"
| "capacity Gradients = 15"
| "capacity ZIndex = 15"
| "capacity Gaps = 20"
| "capacity Widths = 20"
| "capacity Heights = 20"
| "capacity DisplayTypes = 12"
| "capacity FlexProperties = 20"
| "capacity GridProperties = 15"
| "capacity Positions = 8"
| "capacity TextTransforms = 6"
| "capacity TextDecorations = 8"
| "capacity Breakpoints = 15"
| "capacity Animations = 15"

fun tolerance :: "category \<Rightarrow> rat option" where
  "tolerance Colors = None"
| "tolerance Fonts = None"
| "tolerance FontSizes = Some 1"
| "tolerance FontWeights = Some 50"
| "tolerance LineHeights = Some (1 / 2)"
| "tolerance LetterSpacing = Some (1 / 10)"
| "tolerance Spacing = Some 2"
| "tolerance BorderRadius = Some 2"
| "tolerance Shadows = None"
| "tolerance Borders = None"
| "tolerance Transitions = None"
| "tolerance Transforms = None"
| "tolerance Opacities = Some (1 / 20)"
| "tolerance Gradients = None"
| "tolerance ZIndex = Some 10"
| "tolerance Gaps = Some 2"
| "tolerance Widths = Some 10"
| "tolerance Heights = Some 10"
| "tolerance DisplayTypes = None"
| "tolerance FlexProperties = None"
| "tolerance GridProperties = None"
| "tolerance Positions = None"
| "tolerance TextTransforms = None"
| "tolerance TextDecorations = None"
| "tolerance Breakpoints = Some 20"
| "tolerance Animations = None"


text \<open>The list stored under a key: its length, and the list itself when the key is a
  numeric one.\<close>

fun stored_len :: "category \<Rightarrow> ('n, 'l, 'z) patterns_scheme \<Rightarrow> nat" where
  "stored_len Colors p = length (colors p)"
| "stored_len Fonts p = length (fonts p)"
| "stored_len FontSizes p = length (fontSizes p)"
| "stored_len FontWeights p = length (fontWeights p)"
| "stored_len LineHeights p = length (lineHeights p)"
| "stored_len LetterSpacing p = length (letterSpacing p)"
| "stored_len Spacing p = length (spacing p)"
| "stored_len BorderRadius p = length (borderRadius p)"
| "stored_len Shadows p = length (shadows p)"
| "stored_len Borders p = length (borders p)"
| "stored_len Transitions p = length (transitions p)"
| "stored_len Transforms p = length (transforms p)"
| "stored_len Opacities p = length (opacities p)"
| "stored_len Gradients p = length (gradients p)"
| "stored_len ZIndex p = length (zIndex p)"
| "stored_len Gaps p = length (gaps p)"
| "stored_len Widths p = length (widths p)"
| "stored_len Heights p = length (heights p)"
| "stored_len DisplayTypes p = length (displayTypes p)"
| "stored_len FlexProperties p = length (flexProperties p)"
| "stored_len GridProperties p = length (gridProperties p)"
| "stored_len Positions p = length (positions p)"
| "stored_len TextTransforms p = length (textTransforms p)"
| "stored_len TextDecorations p = length (textDecorations p)"
| "stored_len Breakpoints p = length (breakpoints p)"
| "stored_len Animations p = length (animations p)"

fun stored_nums :: "category \<Rightarrow> ('n, 'l, 'z) patterns_scheme \<Rightarrow> 'n list option" where
  "stored_nums Colors p = None"
| "stored_nums Fonts p = None"
| "stored_nums FontSizes p = Some (fontSizes p)"
| "stored_nums FontWeights p = Some (fontWeights p)"
| "stored_nums LineHeights p = Some (lineHeights p)"
| "stored_nums LetterSpacing p = Some (letterSpacing p)"
| "stored_nums Spacing p = Some (spacing p)"
| "stored_nums BorderRadius p = Some (borderRadius p)"
| "stored_nums Shadows p = None"
| "stored_nums Borders p = None"
| "stored_nums Transitions p = None"
| "stored_nums Transforms p = None"
| "stored_nums Opacities p = Some (opacities p)"
| "stored_nums Gradients p = None"
| "stored_nums ZIndex p = Some (zIndex p)"
| "stored_nums Gaps p = Some (gaps p)"
| "stored_nums Widths p = Some (widths p)"
| "stored_nums Heights p = Some (heights p)"
| "stored_nums DisplayTypes p = None"
| "stored_nums FlexProperties p = None"
| "stored_nums GridProperties p = None"
| "stored_nums Positions p = None"
| "stored_nums TextTransforms p = None"
| "stored_nums TextDecorations p = None"
| "stored_nums Breakpoints p = Some (breakpoints p)"
| "stored_nums Animations p = None"


section \<open>Reading a snapshot and a profile\<close>

text \<open>The value list stored for a pair of a component and a property, if there is one.\<close>

definition style_values :: "string list obj obj \<Rightarrow> string \<Rightarrow> string \<Rightarrow> string list option" where
  "style_values cs component property =
     (case map_of cs component of None \<Rightarrow> None | Some props \<Rightarrow> map_of props property)"

text \<open>An object has each key once, at both levels of \<open>componentStyles\<close>; and every value
  list has at most five entries.\<close>

definition unique_keys :: "string list obj obj \<Rightarrow> bool" where
  "unique_keys cs =
     (distinct (map fst cs) \<and> list_all (\<lambda>(c, props). distinct (map fst props)) cs)"

definition capped5 :: "string list obj obj \<Rightarrow> bool" where
  "capped5 cs = list_all (\<lambda>(c, props). list_all (\<lambda>(k, vs). length vs \<le> 5) props) cs"

text \<open>No two entries of a list of numbers are equal or closer to each other than the
  tolerance.\<close>

definition separated :: "rat \<Rightarrow> rat list \<Rightarrow> bool" where
  "separated tol xs =
     (distinct xs \<and> list_all (\<lambda>x. list_all (\<lambda>y. x = y \<or> tol \<le> \<bar>x - y\<bar>) xs) xs)"

text \<open>The union of a stored value list with a snapshot's value list, capped at five
  entries, in the words of the specification; the merge is compared with it below.\<close>

definition spec_union_cap :: "string list \<Rightarrow> string list \<Rightarrow> string list" where
  "spec_union_cap stored new = take 5 (fold push_new new stored)"

text \<open>The numbers of elements of a document that match the five selector groups.\<close>

definition element_counts :: "element list \<Rightarrow> layout" where
  "element_counts doc =
     \<lparr> buttons = length (filter is_button doc), cards = length (filter is_card doc),
       containers = length (filter is_container doc), inputs = length (filter is_input doc),
       modals = length (filter is_modal doc) \<rparr>"

section \<open>Sample documents, snapshots and profiles\<close>

text \<open>Concrete inputs on which the theorems below are evaluated.\<close>

definition no_layout :: layout where
  "no_layout = \<lparr> buttons = 0, cards = 0, containers = 0, inputs = 0, modals = 0 \<rparr>"

definition empty_snapshot :: snapshot where
  "empty_snapshot = empty_patterns no_layout"

text \<open>Sixty colours \<open>#000\<close>, \<open>#010\<close>, ..., \<open>#3b0\<close>, and the snapshot of a document whose
  only colour is the \<open>n\<close>-th of them.\<close>

definition hex_char :: "nat \<Rightarrow> char" where
  "hex_char n = (if n < 10 then char_of (48 + n) else char_of (87 + n))"

definition sample_color :: "nat \<Rightarrow> string" where
  "sample_color n = [CHR ''#'', hex_char (n div 16), hex_char (n mod 16), CHR ''0'']"

definition color_snapshot :: "nat \<Rightarrow> snapshot" where
  "color_snapshot n = empty_snapshot\<lparr>colors := [sample_color n]\<rparr>"

text \<open>A profile whose \<open>letterSpacing\<close> list is full, and a snapshot with one smaller
  value.\<close>

definition full_letterSpacing :: profile where
  "full_letterSpacing = empty_profile\<lparr>letterSpacing := [1, 2, 3, 4, 5, 6, 7, 8, 9, 10, 11, 12]\<rparr>"

definition half_letterSpacing :: snapshot where
  "half_letterSpacing = empty_snapshot\<lparr>letterSpacing := [1 / 2]\<rparr>"

text \<open>The document \<open><div style="padding: 0">Subscribe</div>\<close>.\<close>

definition zero_padding_doc :: "element list" where
  "zero_padding_doc =
     [\<lparr> tag = ''div'', attrs = [(''style'', ''padding: 0'')], html = ''Subscribe'' \<rparr>]"

text \<open>Snapshots with one spacing value.\<close>

definition spacing_snapshot :: "rat \<Rightarrow> snapshot" where
  "spacing_snapshot v = empty_snapshot\<lparr>spacing := [v]\<rparr>"

text \<open>\<open><div style="width: 50%">Offer</div>\<close> and \<open><div style="height: 100vh">Offer</div>\<close>.\<close>

definition percent_width_doc :: "element list" where
  "percent_width_doc =
     [\<lparr> tag = ''div'', attrs = [(''style'', ''width: 50%'')], html = ''Offer'' \<rparr>]"

definition viewport_height_doc :: "element list" where
  "viewport_height_doc =
     [\<lparr> tag = ''div'', attrs = [(''style'', ''height: 100vh'')], html = ''Offer'' \<rparr>]"

text \<open>\<open><div style="width: 320px; height: 2.5em">Offer</div>\<close>.\<close>

definition pixel_size_doc :: "element list" where
  "pixel_size_doc =
     [\<lparr> tag = ''div'', attrs = [(''style'', ''width: 320px; height: 2.5em'')], html = ''Offer'' \<rparr>]"

text \<open>Documents with one style sheet that sets a font weight.\<close>

definition bolder_doc :: "element list" where
  "bolder_doc = [\<lparr> tag = ''style'', attrs = [], html = ''h1 { font-weight: bolder; }'' \<rparr>]"

definition lighter_doc :: "element list" where
  "lighter_doc = [\<lparr> tag = ''style'', attrs = [], html = ''h1 { font-weight: lighter; }'' \<rparr>]"

definition weights_doc :: "element list" where
  "weights_doc =
     [\<lparr> tag = ''style'', attrs = [],
        html = ''h1 { font-weight: bold; } p { font-weight: normal; } b { font-weight: 600; }'' \<rparr>]"

text \<open>Documents with two style sheets; the rule block of the button archetype is in the
  first one, or in the second one.\<close>

definition button_rule :: string where
  "button_rule = ''button, .button, [class*='btn'] { color: red; }''"

definition rule_in_first_doc :: "element list" where
  "rule_in_first_doc =
     [\<lparr> tag = ''style'', attrs = [], html = button_rule \<rparr>,
      \<lparr> tag = ''style'', attrs = [], html = ''body { margin: 0; }'' \<rparr>]"

definition rule_in_second_doc :: "element list" where
  "rule_in_second_doc =
     [\<lparr> tag = ''style'', attrs = [], html = ''body { margin: 0; }'' \<rparr>,
      \<lparr> tag = ''style'', attrs = [], html = button_rule \<rparr>]"

text \<open>Documents with one style sheet that holds the button rule block.\<close>

definition red_button_doc :: "element list" where
  "red_button_doc =
     [\<lparr> tag = ''style'', attrs = [],
        html = ''button, .button, [class*='btn'] { color: red; }'' \<rparr>]"

definition blue_button_doc :: "element list" where
  "blue_button_doc =
     [\<lparr> tag = ''style'', attrs = [],
        html = ''button, .button, [class*='btn'] { color: blue; }'' \<rparr>]"

definition padded_button_doc :: "element list" where
  "padded_button_doc =
     [\<lparr> tag = ''style'', attrs = [],
        html = ''button, .button, [class*='btn'] { color: red; padding: 4px; }'' \<rparr>]"

text \<open>Documents without any style sheet or \<open>style\<close> attribute:
  \<open><button>Subscribe</button>\<close>, and a card with an input.\<close>

definition button_only_doc :: "element list" where
  "button_only_doc = [\<lparr> tag = ''button'', attrs = [], html = ''Subscribe'' \<rparr>]"

definition card_form_doc :: "element list" where
  "card_form_doc =
     [\<lparr> tag = ''div'', attrs = [(''class'', ''offer card'')], html = ''<input type=email>'' \<rparr>,
      \<lparr> tag = ''input'', attrs = [(''type'', ''email'')], html = [] \<rparr>]"


section \<open>Properties of the merge\<close>

lemma mergeArray_num_eq:
  "mergeArray_num target source limit tol = take limit (sort (fold (merge_item tol) source target))"
  by (simp add: mergeArray_num_def Let_def split: list.split)

lemma length_mergeArray_num: "length (mergeArray_num target source limit tol) \<le> limit"
  by (simp add: mergeArray_num_eq)

lemma length_mergeArray_str: "length (mergeArray_str target source limit) \<le> limit"
  by (simp add: mergeArray_str_def)

lemma stored_len_merge: "stored_len c (mergePaywallPatterns s p) \<le> capacity c"
  by (cases c) (simp_all add: mergePaywallPatterns_def length_mergeArray_num length_mergeArray_str)

lemma stored_len_empty: "stored_len c empty_profile = 0"
  by (cases c) (simp_all add: empty_profile_def)

lemma count_merge: "count (mergePaywallPatterns s p) = count p + 1"
  by (simp add: mergePaywallPatterns_def)

lemma count_fold: "count (fold mergePaywallPatterns snaps p) = count p + length snaps"
  by (induction snaps arbitrary: p) (simp_all add: count_merge)

text \<open>
  C8.  Every call of \<open>mergePaywallPatterns\<close> adds exactly one to \<open>count\<close>, whatever the
  snapshot holds; after a reset and \<open>N\<close> merges \<open>count\<close> is \<open>N\<close>; and the reset gives a
  profile with \<open>count\<close> 0, every category list empty, and empty \<open>layouts\<close>,
  \<open>commonStyles\<close> and \<open>componentStyles\<close>.
\<close>

theorem count_and_reset:
  "count (mergePaywallPatterns s p) = count p + 1
   \<and> count (fold mergePaywallPatterns snaps (reset p)) = length snaps
   \<and> count (reset p) = 0
   \<and> (\<forall>c. stored_len c (reset p) = 0)
   \<and> layouts (reset p) = [] \<and> commonStyles (reset p) = [] \<and> componentStyles (reset p) = []"
  by (simp add: count_merge count_fold reset_def stored_len_empty) (simp add: empty_profile_def)


lemma colors_fold:
  "colors (fold mergePaywallPatterns ss p)
     = fold (\<lambda>l t. mergeArray_str t l 40) (map colors ss) (colors p)"
  by (induction ss arbitrary: p) (simp_all add: mergePaywallPatterns_def)

lemma take_take_append: "take n (take n xs @ ys) = take n (xs @ ys)"
  by (cases "length xs \<le> n") (simp_all add: min_def)

lemma fold_singletons:
  "distinct (t @ cs) \<Longrightarrow>
   fold (\<lambda>l t. mergeArray_str t l n) (map (\<lambda>x. [x]) cs) t
     = (if cs = [] then t else take n (t @ cs))"
proof (induction cs arbitrary: t)
  case Nil
  then show ?case by simp
next
  case (Cons c cs)
  have step: "mergeArray_str t [c] n = take n (t @ [c])"
    using Cons.prems by (simp add: mergeArray_str_def push_new_def)
  have d1: "distinct (take n (t @ [c]))"
    using Cons.prems by (intro distinct_take) simp
  have d2: "set (take n (t @ [c])) \<subseteq> set t \<union> {c}"
    using set_take_subset[of n "t @ [c]"] by simp
  have d: "distinct (take n (t @ [c]) @ cs)"
    unfolding distinct_append using d1 d2 Cons.prems by auto
  have "fold (\<lambda>l t. mergeArray_str t l n) (map (\<lambda>x. [x]) (c # cs)) t
          = fold (\<lambda>l t. mergeArray_str t l n) (map (\<lambda>x. [x]) cs) (take n (t @ [c]))"
    by (simp add: step del: take_append)
  also have "\<dots> = (if cs = [] then take n (t @ [c]) else take n (take n (t @ [c]) @ cs))"
    by (rule Cons.IH[OF d])
  also have "\<dots> = take n (t @ c # cs)"
    by (simp add: take_take_append del: take_append)
  finally show ?case by simp
qed

lemma stored_len_fold:
  "stored_len c (fold mergePaywallPatterns snaps empty_profile) \<le> capacity c"
proof (cases snaps rule: rev_cases)
  case Nil
  then show ?thesis by (simp add: stored_len_empty)
next
  case (snoc ss s)
  then show ?thesis by (simp add: stored_len_merge)
qed

text \<open>
  C6.  Starting from the empty profile, after any sequence of merges the list stored
  under every category is at most as long as the category's capacity.  And when sixty
  documents are merged, each with exactly one colour and no colour occurring twice, the
  profile holds exactly forty colours.
\<close>

theorem capacity_invariant:
  "(\<forall>c. stored_len c (fold mergePaywallPatterns snaps empty_profile) \<le> capacity c)
   \<and> (distinct cs \<and> length cs = 60 \<and> map colors docs = map (\<lambda>x. [x]) cs
        \<longrightarrow> length (colors (fold mergePaywallPatterns docs empty_profile)) = 40)"
proof (intro conjI allI impI)
  fix c show "stored_len c (fold mergePaywallPatterns snaps empty_profile) \<le> capacity c"
    by (rule stored_len_fold)
next
  assume a: "distinct cs \<and> length cs = 60 \<and> map colors docs = map (\<lambda>x. [x]) cs"
  then have "cs \<noteq> []" by auto
  moreover have "colors empty_profile = []" by (simp add: empty_profile_def)
  ultimately have "colors (fold mergePaywallPatterns docs empty_profile) = take 40 cs"
    using a fold_singletons[of "[]" cs 40] by (simp add: colors_fold)
  then show "length (colors (fold mergePaywallPatterns docs empty_profile)) = 40"
    using a by simp
qed

theorem capacity_invariant_witness:
  "distinct (map sample_color [0..<60]) \<and> length (map sample_color [0..<60]) = 60
   \<and> map colors (map color_snapshot [0..<60]) = map (\<lambda>x. [x]) (map sample_color [0..<60])
   \<and> stored_len Colors (fold mergePaywallPatterns (map color_snapshot [0..<60]) empty_profile) = 40
   \<and> capacity Colors = 40"
proof -
  have d: "distinct (map sample_color [0..<60])" by code_simp
  have m: "map colors (map color_snapshot [0..<60]) = map (\<lambda>x. [x]) (map sample_color [0..<60])"
    by (simp add: color_snapshot_def)
  show ?thesis
    using capacity_invariant[of "map color_snapshot [0..<60]" "map sample_color [0..<60]"
        "map color_snapshot [0..<60]"] d m
    by simp
qed

lemma stored_nums_merge:
  assumes "stored_nums c p = Some old" and "stored_nums c s = Some new"
  shows "stored_nums c (mergePaywallPatterns s p)
           = Some (take (capacity c) (sort (fold (merge_item (tolerance c)) new old)))"
  using assms by (cases c) (simp_all add: mergePaywallPatterns_def mergeArray_num_eq)

lemma sorted_drop_take_le:
  assumes "sorted xs" "x \<in> set (drop n xs)" "y \<in> set (take n xs)"
  shows "y \<le> x"
proof -
  have "xs = take n xs @ drop n xs" by simp
  then have "sorted (take n xs @ drop n xs)" using assms(1) by simp
  then show ?thesis using assms(2,3) unfolding sorted_append by blast
qed

text \<open>
  C7.  For a numeric category \<open>c\<close> with stored list \<open>old\<close> and snapshot list \<open>new\<close>, the list
  stored after a merge is the first \<open>capacity c\<close> entries of the ascending sort of the
  accumulated values; it is sorted ascending, and every entry that the truncation
  drops is at least as large as every entry kept.
\<close>

theorem order_invariant:
  assumes "stored_nums c p = Some old" and "stored_nums c s = Some new"
  shows "stored_nums c (mergePaywallPatterns s p)
           = Some (take (capacity c) (sort (fold (merge_item (tolerance c)) new old)))
         \<and> sorted (take (capacity c) (sort (fold (merge_item (tolerance c)) new old)))
         \<and> (\<forall>x \<in> set (drop (capacity c) (sort (fold (merge_item (tolerance c)) new old))).
              \<forall>y \<in> set (take (capacity c) (sort (fold (merge_item (tolerance c)) new old))).
                y \<le> x)"
  using stored_nums_merge[OF assms]
    sorted_drop_take_le[of "sort (fold (merge_item (tolerance c)) new old)"]
  by (auto intro: sorted_wrt_take)

theorem order_invariant_witness:
  "stored_nums LetterSpacing full_letterSpacing = Some [1, 2, 3, 4, 5, 6, 7, 8, 9, 10, 11, 12]
   \<and> stored_nums LetterSpacing half_letterSpacing = Some [1 / 2]
   \<and> letterSpacing (mergePaywallPatterns half_letterSpacing full_letterSpacing)
       = [1 / 2, 1, 2, 3, 4, 5, 6, 7, 8, 9, 10, 11]
   \<and> sorted (letterSpacing (mergePaywallPatterns half_letterSpacing full_letterSpacing))"
proof -
  have p: "stored_nums LetterSpacing full_letterSpacing = Some [1, 2, 3, 4, 5, 6, 7, 8, 9, 10, 11, 12]"
    by (simp add: full_letterSpacing_def)
  have s: "stored_nums LetterSpacing half_letterSpacing = Some [1 / 2]"
    by (simp add: half_letterSpacing_def)
  have acc: "sort (fold (merge_item (tolerance LetterSpacing)) [1 / 2]
                     [1, 2, 3, 4, 5, 6, 7, 8, 9, 10, 11, 12])
               = [1 / 2, 1, 2, 3, 4, 5, 6, 7, 8, 9, 10, 11, 12]"
    by (simp add: merge_item_def)
  show ?thesis
    using order_invariant[OF p s, unfolded acc] p s by simp
qed

subsection \<open>Tolerance and values other than 0\<close>

text \<open>As long as neither the stored list nor the snapshot holds the number 0, a merge
  keeps the entries of a numeric list apart by at least the tolerance.\<close>

lemma separated_iff:
  "separated tol xs \<longleftrightarrow>
     distinct xs \<and> (\<forall>x \<in> set xs. \<forall>y \<in> set xs. x \<noteq> y \<longrightarrow> tol \<le> \<bar>x - y\<bar>)"
  by (auto simp: separated_def list_all_iff)

lemma merge_item_separated:
  assumes "0 < tol" and "0 \<notin> set target" and "item \<noteq> 0" and "separated tol target"
  shows "separated tol (merge_item (Some tol) item target)
         \<and> 0 \<notin> set (merge_item (Some tol) item target)"
proof (cases "find (\<lambda>t. \<bar>t - item\<bar> < tol) target")
  case None
  then have far: "\<forall>t \<in> set target. tol \<le> \<bar>t - item\<bar>"
    by (auto simp: find_None_iff)
  then have "item \<notin> set target" using assms(1) by fastforce
  moreover have "\<forall>t \<in> set target. tol \<le> \<bar>item - t\<bar>"
    using far by (simp add: abs_minus_commute)
  ultimately have "separated tol (target @ [item])"
    using assms(4) far by (auto simp: separated_iff)
  then show ?thesis
    using None assms by (simp add: merge_item_def)
next
  case (Some existing)
  then have "existing \<in> set target" by (auto simp: find_Some_iff)
  then have "existing \<noteq> 0" using assms(2) by auto
  then show ?thesis
    using Some assms by (simp add: merge_item_def)
qed

lemma fold_merge_item_separated:
  assumes "0 < tol"
  shows "0 \<notin> set target \<Longrightarrow> 0 \<notin> set source \<Longrightarrow> separated tol target \<Longrightarrow>
         separated tol (fold (merge_item (Some tol)) source target)
         \<and> 0 \<notin> set (fold (merge_item (Some tol)) source target)"
proof (induction source arbitrary: target)
  case Nil
  then show ?case by simp
next
  case (Cons item source)
  then have "separated tol (merge_item (Some tol) item target)
             \<and> 0 \<notin> set (merge_item (Some tol) item target)"
    using merge_item_separated[OF assms, of target item] by simp
  then show ?case using Cons by simp
qed

lemma separated_sort_take:
  assumes "separated tol xs"
  shows "separated tol (take n (sort xs))"
proof -
  have "set (take n (sort xs)) \<subseteq> set xs" using set_take_subset[of n "sort xs"] by simp
  moreover have "distinct (take n (sort xs))" using assms by (simp add: separated_iff)
  ultimately show ?thesis using assms unfolding separated_iff by blast
qed

lemma tolerance_positive: "tolerance c = Some tol \<Longrightarrow> 0 < tol"
  by (cases c) auto

lemma dedup_without_zero:
  assumes "stored_nums c p = Some old" and "stored_nums c s = Some new"
    and "tolerance c = Some tol"
    and "0 \<notin> set old" and "0 \<notin> set new" and "separated tol old"
  shows "stored_nums c (mergePaywallPatterns s p)
           = Some (take (capacity c) (sort (fold (merge_item (Some tol)) new old)))
         \<and> separated tol (take (capacity c) (sort (fold (merge_item (Some tol)) new old)))"
  using stored_nums_merge[OF assms(1,2)]
    fold_merge_item_separated[OF tolerance_positive[OF assms(3)] assms(4,5,6)]
  by (simp add: assms(3) separated_sort_take)

section \<open>Properties of the extractor\<close>

text \<open>What \<open>collect\<close> leaves in one field of the working object, and how the snapshot's
  field is made from it.\<close>

lemma field_extractComponentStyles:
  "colors (extractComponentStyles doc p) = colors p"
  "fontWeights (extractComponentStyles doc p) = fontWeights p"
  "spacing (extractComponentStyles doc p) = spacing p"
  "widths (extractComponentStyles doc p) = widths p"
  "heights (extractComponentStyles doc p) = heights p"
  by (simp_all add: extractComponentStyles_def Let_def)


lemma fontWeights_fold_css:
  "fontWeights (fold (\<lambda>elem. extractPatternsFromCSS (f elem)) es p)
     = fold (\<lambda>elem. add_fontWeights (f elem)) es (fontWeights p)"
  by (induction es arbitrary: p) (simp_all add: extractPatternsFromCSS_def)

lemma spacing_fold_css:
  "spacing (fold (\<lambda>elem. extractPatternsFromCSS (f elem)) es p)
     = fold (\<lambda>elem. add_captures spacingRegex (f elem)) es (spacing p)"
  by (induction es arbitrary: p) (simp_all add: extractPatternsFromCSS_def)

lemma widths_fold_css:
  "widths (fold (\<lambda>elem. extractPatternsFromCSS (f elem)) es p)
     = fold (\<lambda>elem. add_widths (f elem)) es (widths p)"
  by (induction es arbitrary: p) (simp_all add: extractPatternsFromCSS_def)

lemma heights_fold_css:
  "heights (fold (\<lambda>elem. extractPatternsFromCSS (f elem)) es p)
     = fold (\<lambda>elem. add_heights (f elem)) es (heights p)"
  by (induction es arbitrary: p) (simp_all add: extractPatternsFromCSS_def)

lemma componentStyles_fold_css:
  "componentStyles (fold (\<lambda>elem. extractPatternsFromCSS (f elem)) es p) = componentStyles p"
  by (induction es arbitrary: p) (simp_all add: extractPatternsFromCSS_def)


lemma fontWeights_collect:
  "fontWeights (collect doc) =
     fold (\<lambda>elem. add_fontWeights (attr ''style'' elem)) (filter (has_attr ''style'') doc)
       (fold (\<lambda>elem. add_fontWeights (html elem)) (filter (\<lambda>e. tag e = ''style'') doc) [])"
  by (simp add: collect_def Let_def field_extractComponentStyles fontWeights_fold_css
      empty_patterns_def)

lemma spacing_collect:
  "spacing (collect doc) =
     fold (\<lambda>elem. add_captures spacingRegex (attr ''style'' elem)) (filter (has_attr ''style'') doc)
       (fold (\<lambda>elem. add_captures spacingRegex (html elem))
             (filter (\<lambda>e. tag e = ''style'') doc) [])"
  by (simp add: collect_def Let_def field_extractComponentStyles spacing_fold_css empty_patterns_def)

lemma widths_collect:
  "widths (collect doc) =
     fold (\<lambda>elem. add_widths (attr ''style'' elem)) (filter (has_attr ''style'') doc)
       (fold (\<lambda>elem. add_widths (html elem)) (filter (\<lambda>e. tag e = ''style'') doc) [])"
  by (simp add: collect_def Let_def field_extractComponentStyles widths_fold_css empty_patterns_def)

lemma heights_collect:
  "heights (collect doc) =
     fold (\<lambda>elem. add_heights (attr ''style'' elem)) (filter (has_attr ''style'') doc)
       (fold (\<lambda>elem. add_heights (html elem)) (filter (\<lambda>e. tag e = ''style'') doc) [])"
  by (simp add: collect_def Let_def field_extractComponentStyles heights_fold_css empty_patterns_def)

lemma snapshot_fields:
  "colors (extractPaywallPatterns doc) = take 30 (colors (collect doc))"
  "fontWeights (extractPaywallPatterns doc) = take 10 (sort (numbers (fontWeights (collect doc))))"
  "spacing (extractPaywallPatterns doc) = take 25 (sort (numbers (spacing (collect doc))))"
  "widths (extractPaywallPatterns doc) = take 15 (sort (numbers (widths (collect doc))))"
  "heights (extractPaywallPatterns doc) = take 15 (sort (numbers (heights (collect doc))))"
  by (simp_all add: extractPaywallPatterns_def Let_def)

lemma componentStyles_extract:
  "componentStyles (extractPaywallPatterns doc)
     = componentStyles (extractComponentStyles doc (empty_patterns ()))"
  by (simp add: extractPaywallPatterns_def collect_def Let_def extractComponentStyles_def
      componentStyles_fold_css)

subsection \<open>Documents without style sheets and inline styles\<close>

lemma no_selector_match_in_empty: "matchAll True (selectorRegex (c # cs)) [] = []"
  by (simp add: selectorRegex_def matchAll.simps)

lemma extractSelectorStyles_no_style:
  assumes "filter (\<lambda>e. tag e = ''style'') doc = []"
  shows "extractSelectorStyles doc (c # cs) props = []"
  using assms by (simp add: extractSelectorStyles_def no_selector_match_in_empty)

lemma extractComponentStyles_no_style:
  assumes "filter (\<lambda>e. tag e = ''style'') doc = []"
  shows "extractComponentStyles doc p = p"
  unfolding extractComponentStyles_def button_selector_def card_selector_def input_selector_def
  by (simp add: extractSelectorStyles_no_style[OF assms])

lemma collect_no_style:
  assumes "filter (\<lambda>e. tag e = ''style'') doc = []" and "filter (has_attr ''style'') doc = []"
  shows "collect doc = empty_patterns ()"
  using assms by (simp add: collect_def extractComponentStyles_no_style)

lemma numbers_Nil: "numbers [] = []"
  by (simp add: numbers_def List.map_filter_simps)

lemma extract_no_style:
  assumes "filter (\<lambda>e. tag e = ''style'') doc = []" and "filter (has_attr ''style'') doc = []"
  shows "extractPaywallPatterns doc = empty_patterns (element_counts doc)"
  by (simp add: extractPaywallPatterns_def collect_no_style[OF assms] Let_def empty_patterns_def
      numbers_Nil element_counts_def)

lemma stored_len_empty_patterns: "stored_len c (empty_patterns l) = 0"
  by (cases c) (simp_all add: empty_patterns_def)

text \<open>
  C9, as amended.  For a document with no \<open>style\<close> element and no \<open>style\<close> attribute the
  extractor returns the empty patterns object: every category list is empty, and so
  are \<open>commonStyles\<close> and \<open>componentStyles\<close>.  Each count in \<open>layouts\<close> is the number of the
  document's elements that match the selector group of that count.
\<close>

theorem no_style_snapshot:
  assumes "\<forall>e \<in> set doc. tag e \<noteq> ''style'' \<and> \<not> has_attr ''style'' e"
  shows "extractPaywallPatterns doc = empty_patterns (element_counts doc)
         \<and> (\<forall>c. stored_len c (extractPaywallPatterns doc) = 0)
         \<and> commonStyles (extractPaywallPatterns doc) = []
         \<and> componentStyles (extractPaywallPatterns doc) = []
         \<and> buttons (layouts (extractPaywallPatterns doc)) = length (filter is_button doc)
         \<and> cards (layouts (extractPaywallPatterns doc)) = length (filter is_card doc)
         \<and> containers (layouts (extractPaywallPatterns doc)) = length (filter is_container doc)
         \<and> inputs (layouts (extractPaywallPatterns doc)) = length (filter is_input doc)
         \<and> modals (layouts (extractPaywallPatterns doc)) = length (filter is_modal doc)"
proof -
  have a: "filter (\<lambda>e. tag e = ''style'') doc = []"
    using assms by (simp add: filter_empty_conv)
  have b: "filter (has_attr ''style'') doc = []"
    using assms by (simp add: filter_empty_conv)
  show ?thesis
    unfolding extract_no_style[OF a b]
    by (simp add: stored_len_empty_patterns) (simp add: empty_patterns_def element_counts_def)
qed

theorem no_style_snapshot_witness:
  "filter (\<lambda>e. tag e = ''style'') card_form_doc = []
   \<and> filter (has_attr ''style'') card_form_doc = []
   \<and> colors (extractPaywallPatterns card_form_doc) = []
   \<and> layouts (extractPaywallPatterns card_form_doc)
       = \<lparr> buttons = 0, cards = 1, containers = 0, inputs = 1, modals = 0 \<rparr>"
proof -
  have h: "\<forall>e \<in> set card_form_doc. tag e \<noteq> ''style'' \<and> \<not> has_attr ''style'' e"
    by (simp add: card_form_doc_def has_attr_def)
  have c: "element_counts card_form_doc
             = \<lparr> buttons = 0, cards = 1, containers = 0, inputs = 1, modals = 0 \<rparr>"
    by code_simp
  have f: "filter (\<lambda>e. tag e = ''style'') card_form_doc = []
           \<and> filter (has_attr ''style'') card_form_doc = []"
    by (simp add: card_form_doc_def has_attr_def)
  show ?thesis
    using no_style_snapshot[OF h] f by (simp add: c empty_patterns_def)
qed

text \<open>
  C9, as stated, fails on the code: the document \<open><button>Subscribe</button>\<close> has no
  style sheet and no inline style, and its snapshot counts one button.
\<close>

theorem button_without_style_counted:
  "filter (\<lambda>e. tag e = ''style'') button_only_doc = []
   \<and> filter (has_attr ''style'') button_only_doc = []
   \<and> buttons (layouts (extractPaywallPatterns button_only_doc)) = 1"
  by (simp add: extractPaywallPatterns_def Let_def button_only_doc_def has_attr_def is_button_def)

subsection \<open>The bounds of the snapshot\<close>






subsection \<open>Widths, heights and font weights\<close>

text \<open>
  C4.  The claim fails on the code.  The first capture group of \<open>widthRegex\<close> and
  \<open>heightRegex\<close> holds digits only, so the tests \<open>match[1].includes("%")\<close>,
  \<open>includes("vw")\<close> and \<open>includes("vh")\<close> never hold: \<open>width: 50%\<close> puts 50 into the
  widths and \<open>height: 100vh\<close> puts 100 into the heights.  Widths and heights in \<open>px\<close>
  and \<open>em\<close> are included, as the claim says.
\<close>

theorem percent_width_included:
  "widths (extractPaywallPatterns percent_width_doc) = [50]
   \<and> heights (extractPaywallPatterns viewport_height_doc) = [100]
   \<and> widths (extractPaywallPatterns pixel_size_doc) = [320]
   \<and> heights (extractPaywallPatterns pixel_size_doc) = [5 / 2]"
  unfolding snapshot_fields widths_collect heights_collect by code_simp

text \<open>
  C10.  The claim fails on the code.  In \<open>fontWeightRegex\<close> the branch \<open>bold\<close> comes
  before \<open>bolder\<close>, so \<open>font-weight: bolder\<close> is captured as \<open>bold\<close> and 700 is
  inserted.  \<open>lighter\<close> inserts nothing, and \<open>bold\<close>, \<open>normal\<close> and \<open>600\<close> give 700, 400
  and 600, as the claim says.
\<close>

theorem bolder_inserted:
  "fontWeights (extractPaywallPatterns bolder_doc) = [700]
   \<and> fontWeights (extractPaywallPatterns lighter_doc) = []
   \<and> fontWeights (extractPaywallPatterns weights_doc) = [400, 600, 700]"
  unfolding snapshot_fields fontWeights_collect by code_simp

subsection \<open>Component styles\<close>

text \<open>
  C5.  The claim fails on the code.  \<open>extractSelectorStyles\<close> reads
  \<open>$("style").html()\<close>, the text of the first \<open>style\<close> element only: the rule block of
  the button archetype is found when it stands in the first style sheet, and it is
  not found when it stands in the second one.
\<close>

theorem only_first_style_block:
  "componentStyles (extractPaywallPatterns rule_in_first_doc)
     = [(''buttons'', [(''color'', [''red''])])]
   \<and> componentStyles (extractPaywallPatterns rule_in_second_doc) = []"
  unfolding componentStyles_extract by code_simp

lemma distinct_keys_extractSelectorStyles:
  "distinct (map fst (extractSelectorStyles doc selector properties))"
proof -
  have inner: "distinct (map fst st) \<Longrightarrow>
      distinct (map fst (fold (\<lambda>prop st.
                              case exec True (propRegex prop) block of
                                None \<Rightarrow> st
                              | Some propMatch \<Rightarrow>
                                  AList.update prop
                                    (Set_add (trim (grp 1 propMatch)) (get_or [] st prop)) st)
                           props st))" for block props and st :: "string list obj"
    by (induction props arbitrary: st) (auto simp: distinct_update split: option.splits)
  have outer: "distinct (map fst st) \<Longrightarrow>
      distinct (map fst (fold (\<lambda>m styles'.
                      let styleBlock = grp 2 m in
                      fold (\<lambda>prop st.
                              case exec True (propRegex prop) styleBlock of
                                None \<Rightarrow> st
                              | Some propMatch \<Rightarrow>
                                  AList.update prop
                                    (Set_add (trim (grp 1 propMatch)) (get_or [] st prop)) st)
                           properties styles') ms st))" for ms and st :: "string list obj"
    by (induction ms arbitrary: st) (simp_all add: inner Let_def)
  have keys: "map fst (map (\<lambda>(key, vs). (key, take 5 vs)) st) = map fst st"
    for st :: "string list obj"
    by (induction st) auto
  show ?thesis
    unfolding extractSelectorStyles_def Let_def keys using outer[of "[]"]
    by (simp add: Let_def)
qed

lemma capped_extractSelectorStyles:
  "list_all (\<lambda>(k, vs). length vs \<le> 5) (extractSelectorStyles doc selector properties)"
  by (simp add: extractSelectorStyles_def Let_def list_all_iff split_beta)

lemma extract_componentStyles_shape:
  "unique_keys (componentStyles (extractPaywallPatterns doc))
   \<and> capped5 (componentStyles (extractPaywallPatterns doc))"
  unfolding componentStyles_extract extractComponentStyles_def Let_def
  by (simp add: unique_keys_def capped5_def distinct_keys_extractSelectorStyles
      capped_extractSelectorStyles empty_patterns_def)

lemma capped5_values:
  assumes "capped5 cs" and "style_values cs c k = Some vs"
  shows "length vs \<le> 5"
proof -
  from assms(2) obtain props where p: "map_of cs c = Some props" and v: "map_of props k = Some vs"
    by (auto simp: style_values_def split: option.splits)
  from p have "(c, props) \<in> set cs" by (rule map_of_SomeD)
  moreover from v have "(k, vs) \<in> set props" by (rule map_of_SomeD)
  ultimately show ?thesis using assms(1) by (auto simp: capped5_def list_all_iff)
qed

section \<open>Extraction followed by merge\<close>

lemma zero_padding_snapshot: "spacing (extractPaywallPatterns zero_padding_doc) = [0]"
  unfolding snapshot_fields spacing_collect by code_simp

text \<open>
  C1.  The claim fails on the code at a stored 0.  The snapshot of the document
  \<open><div style="padding: 0">\<close> has the spacing list \<open>[0]\<close>; merged twice into the empty
  profile it leaves the two entries \<open>[0, 0]\<close>, which are within the tolerance 2 of each
  other: the second 0 is found by \<open>find\<close>, but the element found is falsy.  A value
  within the tolerance of a stored value other than 0 is absorbed: 10 and then 11
  leave \<open>[10]\<close>.
\<close>

theorem zero_not_absorbed:
  "spacing (extractPaywallPatterns zero_padding_doc) = [0]
   \<and> spacing (mergePaywallPatterns (extractPaywallPatterns zero_padding_doc)
        (mergePaywallPatterns (extractPaywallPatterns zero_padding_doc) empty_profile)) = [0, 0]
   \<and> tolerance Spacing = Some 2
   \<and> spacing (mergePaywallPatterns (spacing_snapshot 11)
        (mergePaywallPatterns (spacing_snapshot 10) empty_profile)) = [10]"
  by (simp add: zero_padding_snapshot mergePaywallPatterns_def mergeArray_num_eq merge_item_def
      empty_profile_def spacing_snapshot_def)

subsection \<open>Component styles in the profile\<close>

lemma map_of_Object_assign:
  "distinct (map fst source) \<Longrightarrow>
   map_of (Object_assign target source) = map_of target ++ map_of source"
proof (induction source arbitrary: target)
  case Nil
  then show ?case by (simp add: Object_assign_def)
next
  case (Cons kv source)
  obtain k v where kv: "kv = (k, v)" by (cases kv)
  have k: "k \<notin> dom (map_of source)"
    using Cons.prems kv by (auto simp: dom_map_of_conv_image_fst)
  have "map_of (Object_assign target (kv # source))
          = map_of (Object_assign (AList.update k v target) source)"
    by (simp add: Object_assign_def kv)
  also have "\<dots> = map_of (AList.update k v target) ++ map_of source"
    using Cons.prems by (intro Cons.IH) simp
  also have "\<dots> = (map_of target)(k \<mapsto> v) ++ map_of source"
    by (simp only: update_conv')
  also have "\<dots> = map_of target ++ map_of (kv # source)"
    using k by (auto simp: kv map_add_def fun_eq_iff domIff split: option.splits)
  finally show ?case .
qed

lemma map_of_merge_keys:
  "distinct ks \<Longrightarrow>
   map_of (fold (\<lambda>component cs. AList.update component
                   (Object_assign (get_or [] cs component) (get_or [] new component)) cs)
                ks stored) c
     = (if c \<in> set ks
        then Some (Object_assign (get_or [] stored c) (get_or [] new c))
        else map_of stored c)"
proof (induction ks arbitrary: stored)
  case Nil
  then show ?case by simp
next
  case (Cons k ks)
  let ?stored' = "AList.update k (Object_assign (get_or [] stored k) (get_or [] new k)) stored"
  have other: "c \<noteq> k \<Longrightarrow> get_or [] ?stored' c = get_or [] stored c"
    by (simp add: get_or_def update_conv')
  have ih: "map_of (fold (\<lambda>component cs. AList.update component
                   (Object_assign (get_or [] cs component) (get_or [] new component)) cs)
                (k # ks) stored) c
     = (if c \<in> set ks
        then Some (Object_assign (get_or [] ?stored' c) (get_or [] new c))
        else map_of ?stored' c)"
    using Cons.IH[of ?stored'] Cons.prems by simp
  show ?case
  proof (cases "c = k")
    case True
    then have "c \<notin> set ks" using Cons.prems by simp
    then show ?thesis using True ih by (simp add: update_conv')
  next
    case False
    then show ?thesis using ih other by (simp add: update_conv')
  qed
qed

lemma map_of_merge_componentStyles:
  assumes "distinct (map fst new)"
  shows "map_of (merge_componentStyles stored new) c
     = (case map_of new c of
          None \<Rightarrow> map_of stored c
        | Some props \<Rightarrow> Some (Object_assign (get_or [] stored c) props))"
proof (cases "map_of new c")
  case None
  then have "c \<notin> set (map fst new)" by (simp add: map_of_eq_None_iff)
  then show ?thesis
    using map_of_merge_keys[OF assms, of new stored c] None by (simp add: merge_componentStyles_def)
next
  case (Some props)
  then have "c \<in> set (map fst new)" by (metis map_of_eq_None_iff option.distinct(1) set_map)
  then show ?thesis
    using map_of_merge_keys[OF assms, of new stored c] Some
    by (simp add: merge_componentStyles_def get_or_def)
qed

lemma style_values_merge:
  assumes "unique_keys new"
  shows "style_values (merge_componentStyles stored new) c k
           = (case style_values new c k of
                Some vs \<Rightarrow> Some vs
              | None \<Rightarrow> style_values stored c k)"
proof (cases "map_of new c")
  case None
  then show ?thesis
    using assms by (simp add: style_values_def map_of_merge_componentStyles unique_keys_def)
next
  case (Some props)
  then have "(c, props) \<in> set new" by (rule map_of_SomeD)
  then have d: "distinct (map fst props)"
    using assms by (auto simp: unique_keys_def list_all_iff)
  show ?thesis
    using assms Some
    by (simp add: style_values_def map_of_merge_componentStyles unique_keys_def
        map_of_Object_assign[OF d] map_add_def get_or_def split: option.splits)
qed

lemma componentStyles_merge:
  "componentStyles (mergePaywallPatterns s p)
     = merge_componentStyles (componentStyles p) (componentStyles s)"
  by (simp add: mergePaywallPatterns_def)

lemma red_styles:
  "componentStyles (extractPaywallPatterns red_button_doc)
     = [(''buttons'', [(''color'', [''red''])])]"
  unfolding componentStyles_extract by code_simp

lemma blue_styles:
  "componentStyles (extractPaywallPatterns blue_button_doc)
     = [(''buttons'', [(''color'', [''blue''])])]"
  unfolding componentStyles_extract by code_simp

lemma padded_styles:
  "componentStyles (extractPaywallPatterns padded_button_doc)
     = [(''buttons'', [(''color'', [''red'']), (''padding'', [''4px''])])]"
  unfolding componentStyles_extract by code_simp

text \<open>
  C2, as amended.  When the snapshot of a document is merged, the value list stored for
  a component and a property is the snapshot's list for that pair if the snapshot has
  one (it replaces the stored list), and the list stored before otherwise.  A value
  list of a snapshot has at most five entries.
\<close>

theorem componentStyles_overwrite:
  "style_values (componentStyles (mergePaywallPatterns (extractPaywallPatterns doc) p))
       component property
     = (case style_values (componentStyles (extractPaywallPatterns doc)) component property of
          Some vs \<Rightarrow> Some vs
        | None \<Rightarrow> style_values (componentStyles p) component property)
   \<and> (\<forall>vs. style_values (componentStyles (extractPaywallPatterns doc)) component property = Some vs
          \<longrightarrow> length vs \<le> 5)"
  using extract_componentStyles_shape[of doc]
  by (auto simp: componentStyles_merge style_values_merge intro: capped5_values)

theorem componentStyles_overwrite_witness:
  "style_values (componentStyles (extractPaywallPatterns blue_button_doc)) ''buttons'' ''color''
     = Some [''blue'']
   \<and> length [''blue''] \<le> 5
   \<and> style_values (componentStyles (mergePaywallPatterns (extractPaywallPatterns blue_button_doc)
        (mergePaywallPatterns (extractPaywallPatterns padded_button_doc) empty_profile)))
      ''buttons'' ''color'' = Some [''blue'']"
  using componentStyles_overwrite[of blue_button_doc
      "mergePaywallPatterns (extractPaywallPatterns padded_button_doc) empty_profile"
      "''buttons''" "''color''"]
  by (simp add: blue_styles style_values_def)

text \<open>
  C2, as stated, fails on the code: after a document with a red button and a document
  with a blue button, the list stored for the colour of the buttons is \<open>[blue]\<close>, and
  not the union \<open>[red, blue]\<close>.
\<close>

theorem earlier_values_replaced:
  "style_values (componentStyles (mergePaywallPatterns (extractPaywallPatterns red_button_doc)
        empty_profile)) ''buttons'' ''color'' = Some [''red'']
   \<and> style_values (componentStyles (extractPaywallPatterns blue_button_doc)) ''buttons'' ''color''
       = Some [''blue'']
   \<and> style_values (componentStyles (mergePaywallPatterns (extractPaywallPatterns blue_button_doc)
        (mergePaywallPatterns (extractPaywallPatterns red_button_doc) empty_profile)))
      ''buttons'' ''color'' = Some [''blue'']
   \<and> spec_union_cap [''red''] [''blue''] = [''red'', ''blue'']"
  by (simp add: componentStyles_merge red_styles blue_styles merge_componentStyles_def
      Object_assign_def style_values_def get_or_def spec_union_cap_def push_new_def
      empty_profile_def)

end
